theory Spec2Isabelle
  imports Main "HOL-Library.Multiset" "HOL-Library.Char_ord" "HOL-Library.List_Lexorder"
begin

section \<open>Sidecar listener synthesis (pilot/pkg/networking/core/v1alpha3/listener.go)\<close>

subsection \<open>Constants\<close>

definition WildcardAddress :: string where
  "WildcardAddress = ''0.0.0.0''"

definition WildcardIPv6Address :: string where
  "WildcardIPv6Address = ''::''"

definition LocalhostAddress :: string where
  "LocalhostAddress = ''127.0.0.1''"

definition LocalhostIPv6Address :: string where
  "LocalhostIPv6Address = ''::1''"

text \<open>\<open>constants.UnspecifiedIP\<close> is declared outside listener.go; its value is the
  IPv4 unspecified address.\<close>

definition UnspecifiedIP :: string where
  "UnspecifiedIP = ''0.0.0.0''"

subsection \<open>Parsed addresses\<close>

text \<open>
  \<open>net.ParseIP\<close> belongs to the Go standard library. It is a parameter of the model:
  it returns \<open>None\<close> for Go's \<open>nil\<close>, and otherwise a parsed address, of which the model
  keeps the two observations listener.go makes: whether \<open>To4()\<close> is non-nil and whether
  \<open>IsGlobalUnicast()\<close> holds, together with the canonical text \<open>String()\<close>.
\<close>

record IP =
  To4 :: bool
  IsGlobalUnicast :: bool
  String :: string

type_synonym ParseIP = "string \<Rightarrow> IP option"

text \<open>
  \<open>getActualWildcardAndLocalHost\<close>: the loop over \<open>node.IPAddresses\<close>; an address
  that does not parse is skipped (\<open>continue\<close>), the first one with a non-nil \<open>To4()\<close>
  returns the IPv4 pair, and the loop running out returns the IPv6 pair.
\<close>

fun getActualWildcardAndLocalHost :: "ParseIP \<Rightarrow> string list \<Rightarrow> string \<times> string" where
  "getActualWildcardAndLocalHost parseIP [] = (WildcardIPv6Address, LocalhostIPv6Address)"
| "getActualWildcardAndLocalHost parseIP (a # as) =
     (case parseIP a of
        None \<Rightarrow> getActualWildcardAndLocalHost parseIP as
      | Some addr \<Rightarrow>
          if To4 addr then (WildcardAddress, LocalhostAddress)
          else getActualWildcardAndLocalHost parseIP as)"

text \<open>\<open>getSidecarInboundBindIP\<close>: the first global unicast address, else the wildcard.\<close>

fun firstGlobalUnicast :: "ParseIP \<Rightarrow> string list \<Rightarrow> string option" where
  "firstGlobalUnicast parseIP [] = None"
| "firstGlobalUnicast parseIP (a # as) =
     (case parseIP a of
        None \<Rightarrow> firstGlobalUnicast parseIP as
      | Some ip \<Rightarrow> if IsGlobalUnicast ip then Some (String ip) else firstGlobalUnicast parseIP as)"

definition getSidecarInboundBindIP :: "ParseIP \<Rightarrow> string list \<Rightarrow> string" where
  "getSidecarInboundBindIP parseIP ips =
     (let defaultInboundIP = fst (getActualWildcardAndLocalHost parseIP ips)
      in case firstGlobalUnicast parseIP ips of Some s \<Rightarrow> s | None \<Rightarrow> defaultInboundIP)"

text \<open>A parser for evaluation at concrete inputs: it knows the IPv4 loopback address, one
  routable IPv4 address and the IPv6 loopback address, and rejects every other text.\<close>

definition sampleParseIP :: ParseIP where
  "sampleParseIP s =
     (if s = ''127.0.0.1'' then Some \<lparr>To4 = True, IsGlobalUnicast = False, String = ''127.0.0.1''\<rparr>
      else if s = ''10.1.2.3'' then Some \<lparr>To4 = True, IsGlobalUnicast = True, String = ''10.1.2.3''\<rparr>
      else if s = ''::1'' then Some \<lparr>To4 = False, IsGlobalUnicast = False, String = ''::1''\<rparr>
      else None)"


subsection \<open>Protocols\<close>

datatype protocol_instance =
  GRPC | GRPCWeb | HTTP | HTTP2 | HTTPS | TCP | TLS | UDP | Mongo | Redis | MySQL | Unsupported

datatype ListenerProtocol = ListenerProtocolUnknown | ListenerProtocolTCP | ListenerProtocolHTTP

text \<open>
  Modelled from the spec: \<open>protocol.Instance.IsHTTP\<close>, \<open>IsTCP\<close>, \<open>IsHTTP2\<close> and
  \<open>plugin.ModelProtocolToListenerProtocol\<close> are declared in packages outside listener.go.
  The spec classifies a protocol as "HTTP family vs. TCP family vs. unsupported"; the
  families are the ones listener.go itself enumerates for management ports.
\<close>

fun IsHTTP :: "protocol_instance \<Rightarrow> bool" where
  "IsHTTP HTTP = True"
| "IsHTTP HTTP2 = True"
| "IsHTTP GRPC = True"
| "IsHTTP GRPCWeb = True"
| "IsHTTP _ = False"

fun IsTCP :: "protocol_instance \<Rightarrow> bool" where
  "IsTCP TCP = True"
| "IsTCP HTTPS = True"
| "IsTCP TLS = True"
| "IsTCP Mongo = True"
| "IsTCP Redis = True"
| "IsTCP MySQL = True"
| "IsTCP _ = False"

fun IsHTTP2 :: "protocol_instance \<Rightarrow> bool" where
  "IsHTTP2 HTTP2 = True"
| "IsHTTP2 GRPC = True"
| "IsHTTP2 GRPCWeb = True"
| "IsHTTP2 _ = False"

definition ModelProtocolToListenerProtocol :: "protocol_instance \<Rightarrow> ListenerProtocol" where
  "ModelProtocolToListenerProtocol p =
     (if IsHTTP p then ListenerProtocolHTTP
      else if IsTCP p then ListenerProtocolTCP
      else ListenerProtocolUnknown)"

definition protocolName :: "protocol_instance \<Rightarrow> string" where
  "protocolName p =
     (case ModelProtocolToListenerProtocol p of
        ListenerProtocolHTTP \<Rightarrow> ''HTTP''
      | ListenerProtocolTCP \<Rightarrow> ''TCP''
      | ListenerProtocolUnknown \<Rightarrow> ''UNKNOWN'')"

subsection \<open>Catalog data\<close>

record Port =
  PortName :: string
  PortNumber :: int
  PortProtocol :: protocol_instance

text \<open>A service: \<open>ServiceAddress\<close> is what \<open>GetServiceAddressForProxy(node)\<close> returns for
  the proxy being built (an address, a CIDR with a slash, or the empty text).\<close>

record Service =
  Hostname :: string
  ServiceAddress :: string
  Ports :: "Port list"

record NetworkEndpoint =
  EndpointAddress :: string
  EndpointPort :: int
  ServicePort :: Port

record ServiceInstance =
  Endpoint :: NetworkEndpoint
  InstanceService :: Service

subsection \<open>Listener resources\<close>

record CidrRange =
  AddressPrefix :: string
  PrefixLen :: nat

text \<open>\<open>listener.FilterChainMatch\<close>, with the fields listener.go writes and two of the
  fields an extension may set through an explicit match. A Go \<open>nil\<close> slice is the empty
  list; \<open>reflect.DeepEqual\<close> on two such values is equality of the records.\<close>

record FilterChainMatch =
  ServerNames :: "string list"
  PrefixRanges :: "CidrRange list"
  TransportProtocol :: string
  ApplicationProtocols :: "string list"

definition emptyFilterChainMatch :: FilterChainMatch where
  "emptyFilterChainMatch =
     \<lparr>ServerNames = [], PrefixRanges = [], TransportProtocol = [], ApplicationProtocols = []\<rparr>"

datatype TracingOperation = INGRESS | EGRESS

text \<open>The settings listener.go puts into a preset \<open>HttpConnectionManager\<close>.\<close>

record HttpConnectionManager =
  ForwardClientCertDetails :: bool
  Http2ProtocolOptions :: bool
  AcceptHttp_10 :: bool
  AllowAbsoluteUrl :: bool

record httpListenerOpts =
  routeConfig :: "string option"
  rds :: string
  connectionManager :: "HttpConnectionManager option"
  statPrefix :: string
  direction :: TracingOperation
  addGRPCWebFilter :: bool
  useRemoteAddress :: bool

text \<open>A network filter. The HTTP connection manager that \<open>buildHTTPConnectionManager\<close>
  serialises is kept symbolic: the filter records the options (with the stat prefix set)
  and the HTTP filters it was built from.\<close>

datatype Filter =
    NetworkFilter string
  | TCPProxy string
  | HTTPConnectionManagerFilter httpListenerOpts "string list"

record ListenerFilter =
  ListenerFilterName :: string
  ListenerFilterConfig :: string

text \<open>\<open>auth.DownstreamTlsContext\<close>: \<open>AlpnProtocols\<close> is \<open>None\<close> when
  \<open>CommonTlsContext\<close> is nil.\<close>

record DownstreamTlsContext =
  AlpnProtocols :: "string list option"

record FilterChain =
  ChainMatch :: "FilterChainMatch option"
  TlsContext :: "DownstreamTlsContext option"
  Filters :: "Filter list"
  Metadata :: "string option"

datatype TrafficDirection = UNSPECIFIED | INBOUND | OUTBOUND

text \<open>
  An \<open>xdsapi.Listener\<close>. \<open>Address\<close> is the socket address
  \<open>util.BuildAddress(bind, uint32(port))\<close>: the bind text and the port converted to an
  unsigned 32-bit number. \<open>DeprecatedV1\<close> is \<open>Some False\<close> when bind-to-port is off.
\<close>

record Listener =
  Name :: string
  Address :: "string \<times> int"
  ListenerFilters :: "ListenerFilter list"
  FilterChains :: "FilterChain list"
  DeprecatedV1 :: "bool option"
  ListenerDirection :: TrafficDirection

record filterChainOpts =
  sniHosts :: "string list"
  destinationCIDRs :: "string list"
  metadata :: "string option"
  tlsContext :: "DownstreamTlsContext option"
  httpOpts :: "httpListenerOpts option"
  match :: "FilterChainMatch option"
  listenerFilters :: "ListenerFilter list"
  networkFilters :: "Filter list"

definition emptyFilterChainOpts :: filterChainOpts where
  "emptyFilterChainOpts =
     \<lparr>sniHosts = [], destinationCIDRs = [], metadata = None, tlsContext = None,
      httpOpts = None, match = None, listenerFilters = [], networkFilters = []\<rparr>"

record buildListenerOpts =
  bind :: string
  port :: int
  filterChainOpts :: "filterChainOpts list"
  bindToPort :: bool
  skipUserFilters :: bool

subsection \<open>Extension plugins\<close>

text \<open>\<open>plugin.FilterChain\<close>: what an extension contributes for one chain.\<close>

record PluginFilterChain =
  PluginFilterChainMatch :: "FilterChainMatch option"
  PluginTLSContext :: "DownstreamTlsContext option"
  PluginListenerFilters :: "ListenerFilter list"
  PluginHTTP :: "string list"
  PluginTCP :: "Filter list"

definition emptyPluginFilterChain :: PluginFilterChain where
  "emptyPluginFilterChain =
     \<lparr>PluginFilterChainMatch = None, PluginTLSContext = None, PluginListenerFilters = [],
      PluginHTTP = [], PluginTCP = []\<rparr>"

record MutableObjects =
  MutableListener :: Listener
  MutableFilterChains :: "PluginFilterChain list"

record Proxy =
  ID :: string
  IPAddresses :: "string list"
  InterceptionNone :: bool
  MetadataHTTP10 :: string
  MetadataSidecarUID :: string

record InputParams =
  ParamListenerProtocol :: ListenerProtocol
  ParamNode :: Proxy
  ParamServiceInstance :: "ServiceInstance option"
  ParamPort :: Port
  ParamBind :: string
  ParamService :: "Service option"

subsection \<open>External collaborators\<close>

text \<open>
  Modelled from the spec: the hooks of an extension plugin are implemented outside
  listener.go. Per the spec's external interfaces, a listener hook "may mutate or append to a
  listener's chains and may return an error (logged, non-fatal)": a hook is a function on
  the listener's filter chains and the plugin-side chains, and \<open>OnInboundFilterChains\<close>
  contributes plugin-side chains.
\<close>

type_synonym ListenerHook =
  "InputParams \<Rightarrow> FilterChain list \<times> PluginFilterChain list \<Rightarrow> FilterChain list \<times> PluginFilterChain list"

record Plugin =
  OnInboundFilterChains :: "InputParams \<Rightarrow> PluginFilterChain list"
  OnInboundListener :: ListenerHook
  OnOutboundListener :: ListenerHook

text \<open>
  Everything else listener.go calls but does not define, and the feature flags and mesh
  settings it reads, for one synthesis: the functions are parameters of the model.
  \<open>DeprecatedInsertUserFilters\<close> returns the listener's chains with the user filters
  inserted, or an error text. \<open>Validate\<close> is true when \<open>Listener.Validate()\<close> returns no
  error.
\<close>

record Context =
  Plugins :: "Plugin list"
  ParseIPFn :: ParseIP
  ConvertAddressToCidr :: "string \<Rightarrow> CidrRange option"
  DeprecatedInsertUserFilters :: "InputParams \<Rightarrow> Listener \<Rightarrow> string + FilterChain list"
  buildSidecarOutboundTCPTLSFilterChainOpts ::
    "string list \<Rightarrow> string \<Rightarrow> Service option \<Rightarrow> Port \<Rightarrow> filterChainOpts list"
  buildInboundNetworkFilters :: "ServiceInstance option \<Rightarrow> Filter list"
  buildSidecarInboundHTTPRouteConfig :: "ServiceInstance \<Rightarrow> string"
  Validate :: "Listener \<Rightarrow> bool"
  RestrictPodIPTrafficLoops :: bool
  EnableFallthroughRoute :: bool
  isAllowAnyOutbound :: bool
  UseRemoteAddress :: bool
  HTTP10 :: bool
  ProxyHttpPort :: int
  DefaultPortHTTPProxy :: int

subsection \<open>Failures\<close>

text \<open>A Go panic (nil dereference, index out of range) and the error value of
  \<open>buildCompleteFilterChain\<close> are results of the model.\<close>

datatype failure = NilPointerDereference | IndexOutOfRange | BuildError string

subsection \<open>Formatting\<close>

definition digit_char :: "nat \<Rightarrow> char" where
  "digit_char d = ''0123456789'' ! d"

fun formatNat :: "nat \<Rightarrow> string" where
  "formatNat n = (if n < 10 then [digit_char n] else formatNat (n div 10) @ [digit_char (n mod 10)])"

declare formatNat.simps [simp del]

text \<open>The verb \<open>%d\<close> of \<open>fmt.Sprintf\<close> on an \<open>int\<close>.\<close>

definition formatInt :: "int \<Rightarrow> string" where
  "formatInt i = (if i < 0 then CHR ''-'' # formatNat (nat (- i)) else formatNat (nat i))"

text \<open>\<open>fmt.Sprintf("%s:%d", bind, port)\<close>, the key of both conflict maps.\<close>

definition listenerMapKeyOf :: "string \<Rightarrow> int \<Rightarrow> string" where
  "listenerMapKeyOf b p = b @ '':'' @ formatInt p"

text \<open>The conversion \<open>uint32(port)\<close> of a Go \<open>int\<close>.\<close>

definition uint32 :: "int \<Rightarrow> int" where
  "uint32 p = p mod 4294967296"

subsection \<open>buildListener\<close>

definition TlsInspector :: string where
  "TlsInspector = ''envoy.listener.tls_inspector''"

definition needsALPN :: "filterChainOpts \<Rightarrow> bool" where
  "needsALPN chain =
     (case tlsContext chain of
        None \<Rightarrow> False
      | Some t \<Rightarrow> (case AlpnProtocols t of None \<Rightarrow> False | Some a \<Rightarrow> 0 < length a))"

definition needTLSInspector :: "filterChainOpts list \<Rightarrow> bool" where
  "needTLSInspector cs = list_ex (\<lambda>chain. 0 < length (sniHosts chain) \<or> needsALPN chain) cs"

text \<open>The inner loop over one chain's listener filters: \<open>seen\<close> is the key set of
  \<open>listenerFiltersMap\<close>.\<close>

fun addListenerFilters ::
  "ListenerFilter list \<Rightarrow> string list \<times> ListenerFilter list \<Rightarrow> string list \<times> ListenerFilter list" where
  "addListenerFilters [] acc = acc"
| "addListenerFilters (f # fs) (seen, lfs) =
     (if ListenerFilterName f \<in> set seen then addListenerFilters fs (seen, lfs)
      else addListenerFilters fs (ListenerFilterName f # seen, lfs @ [f]))"

fun collectListenerFilters ::
  "filterChainOpts list \<Rightarrow> string list \<times> ListenerFilter list \<Rightarrow> string list \<times> ListenerFilter list" where
  "collectListenerFilters [] acc = acc"
| "collectListenerFilters (chain # cs) acc =
     collectListenerFilters cs (addListenerFilters (listenerFilters chain) acc)"

text \<open>The prefix ranges one chain adds: the sorted CIDR texts, skipping the empty text, a
  text that does not convert, and the unspecified address.\<close>

fun prefixRangesOf :: "(string \<Rightarrow> CidrRange option) \<Rightarrow> string list \<Rightarrow> CidrRange list" where
  "prefixRangesOf conv [] = []"
| "prefixRangesOf conv (d # ds) =
     (if length d = 0 then prefixRangesOf conv ds
      else (case conv d of
              None \<Rightarrow> prefixRangesOf conv ds
            | Some cidr \<Rightarrow>
                if AddressPrefix cidr \<noteq> UnspecifiedIP then cidr # prefixRangesOf conv ds
                else prefixRangesOf conv ds))"

text \<open>The match of one chain: an explicit match is the starting point and is always kept;
  otherwise a match that stayed empty collapses to the absent match.\<close>

definition buildFilterChainMatch ::
  "(string \<Rightarrow> CidrRange option) \<Rightarrow> filterChainOpts \<Rightarrow> FilterChainMatch option" where
  "buildFilterChainMatch conv chain =
     (let needMatch = (match chain \<noteq> None);
          m0 = (case match chain of Some m \<Rightarrow> m | None \<Rightarrow> emptyFilterChainMatch);
          m1 = (if 0 < length (sniHosts chain)
                then (let sorted_hosts = sort (sniHosts chain)
                      in if ''*'' \<in> set sorted_hosts then m0
                         else m0\<lparr>ServerNames := sorted_hosts\<rparr>)
                else m0);
          m2 = (if 0 < length (destinationCIDRs chain)
                then m1\<lparr>PrefixRanges :=
                          PrefixRanges m1 @ prefixRangesOf conv (sort (destinationCIDRs chain))\<rparr>
                else m1)
      in if \<not> needMatch \<and> m2 = emptyFilterChainMatch then None else Some m2)"

definition listenerNameOf :: "string \<Rightarrow> int \<Rightarrow> string" where
  "listenerNameOf b p = b @ ''_'' @ formatInt p"

definition buildListener :: "Context \<Rightarrow> buildListenerOpts \<Rightarrow> Listener" where
  "buildListener ctx opts =
     (let start = (if needTLSInspector (filterChainOpts opts)
                   then ([TlsInspector],
                         [\<lparr>ListenerFilterName = TlsInspector, ListenerFilterConfig = []\<rparr>])
                   else ([], []))
      in \<lparr>Name = listenerNameOf (bind opts) (port opts),
          Address = (bind opts, uint32 (port opts)),
          ListenerFilters = snd (collectListenerFilters (filterChainOpts opts) start),
          FilterChains =
            map (\<lambda>chain. \<lparr>ChainMatch = buildFilterChainMatch (ConvertAddressToCidr ctx) chain,
                           TlsContext = tlsContext chain, Filters = [], Metadata = None\<rparr>)
                (filterChainOpts opts),
          DeprecatedV1 = (if \<not> bindToPort opts then Some False else None),
          ListenerDirection = UNSPECIFIED\<rparr>)"

subsection \<open>The conflict registry\<close>

record outboundListenerEntry =
  services :: "Service option list"
  servicePort :: Port
  entryBind :: string
  listener :: Listener
  locked :: bool

record inboundListenerEntry =
  inboundBind :: string
  instanceHostname :: string

datatype metric =
    ProxyStatusConflictInboundListener
  | ProxyStatusConflictOutboundListenerTCPOverHTTP
  | ProxyStatusConflictOutboundListenerHTTPOverTCP
  | ProxyStatusConflictOutboundListenerTCPOverTCP

text \<open>
  One record of the push context's status sink, as \<open>push.Add\<close> receives it: the metric,
  the key, and the parts of the message. For an outbound conflict these are the protocol
  name and host names of the accepted services, the protocol name and host name of the
  rejected unit, and the number of accepted services.
\<close>

datatype event =
    InboundConflict string string string
  | OutboundConflict metric string string "string list" string string nat

type_synonym PushContext = "event list"

record outboundListenerConflict =
  conflictMetric :: metric
  listenerName :: string
  currentProtocol :: protocol_instance
  currentServices :: "Service option list"
  newHostname :: string
  newProtocol :: protocol_instance

text \<open>\<open>addMetric\<close> reads \<open>s.Hostname\<close> of every current service, which panics on a nil
  service.\<close>

definition addMetric :: "outboundListenerConflict \<Rightarrow> PushContext \<Rightarrow> failure + PushContext" where
  "addMetric c push =
     (if None \<in> set (currentServices c) then Inl NilPointerDereference
      else Inr (push @
             [OutboundConflict (conflictMetric c) (listenerName c)
                (protocolName (currentProtocol c))
                (map (\<lambda>s. Hostname (the s)) (currentServices c))
                (protocolName (newProtocol c)) (newHostname c)
                (length (currentServices c))]))"

type_synonym registry = "string \<rightharpoonup> outboundListenerEntry"

subsection \<open>appendListenerFallthroughRoute\<close>

definition PassthroughCluster :: string where
  "PassthroughCluster = ''PassthroughCluster''"

text \<open>A chain whose match is absent or deeply equal to the empty match.\<close>

definition isWildcardMatch :: "FilterChain \<Rightarrow> bool" where
  "isWildcardMatch fc = (ChainMatch fc = None \<or> ChainMatch fc = Some emptyFilterChainMatch)"

text \<open>
  The fallthrough chain is appended to the listener and its options together, unless the
  flag or the outbound policy is off, or the new listener has a wildcard chain, or the
  current entry's listener has one.
\<close>

definition appendListenerFallthroughRoute ::
  "Context \<Rightarrow> Listener \<Rightarrow> buildListenerOpts \<Rightarrow> outboundListenerEntry option
     \<Rightarrow> Listener \<times> buildListenerOpts" where
  "appendListenerFallthroughRoute ctx l opts currentListenerEntry =
     (if EnableFallthroughRoute ctx \<and> isAllowAnyOutbound ctx then
        if list_ex isWildcardMatch (FilterChains l) then (l, opts)
        else if (case currentListenerEntry of
                   None \<Rightarrow> False
                 | Some e \<Rightarrow> list_ex isWildcardMatch (FilterChains (listener e))) then (l, opts)
        else (l\<lparr>FilterChains := FilterChains l @
                  [\<lparr>ChainMatch = Some emptyFilterChainMatch, TlsContext = None,
                    Filters = [], Metadata = None\<rparr>]\<rparr>,
              opts\<lparr>filterChainOpts := filterChainOpts opts @
                  [emptyFilterChainOpts\<lparr>networkFilters := [TCPProxy PassthroughCluster]\<rparr>]\<rparr>)
      else (l, opts))"

subsection \<open>buildCompleteFilterChain\<close>

text \<open>The filters one chain receives: for a network chain the plugin's TCP filters go
  before the terminating network filter; for an HTTP chain the connection manager comes
  last.\<close>

definition completeFilterChain ::
  "string \<Rightarrow> PluginFilterChain \<Rightarrow> filterChainOpts \<Rightarrow> FilterChain \<Rightarrow> FilterChain" where
  "completeFilterChain lname chain opt fc =
     fc\<lparr>Metadata := metadata opt,
        Filters := Filters fc @
          (case httpOpts opt of
             None \<Rightarrow>
               if 0 < length (networkFilters opt)
               then butlast (networkFilters opt) @ PluginTCP chain @ [last (networkFilters opt)]
               else PluginTCP chain
           | Some h \<Rightarrow>
               PluginTCP chain @ [HTTPConnectionManagerFilter (h\<lparr>statPrefix := lname\<rparr>) (PluginHTTP chain)])\<rparr>"

text \<open>The loop \<open>for i := range mutable.FilterChains\<close>: index \<open>i\<close> is read in the options
  and in the listener's chains, and a shorter list there is an index out of range.\<close>

fun completeFilterChains ::
  "string \<Rightarrow> PluginFilterChain list \<Rightarrow> filterChainOpts list \<Rightarrow> FilterChain list
     \<Rightarrow> failure + FilterChain list" where
  "completeFilterChains lname [] opts fcs = Inr fcs"
| "completeFilterChains lname (chain # cs) [] fcs = Inl IndexOutOfRange"
| "completeFilterChains lname (chain # cs) (opt # opts) [] = Inl IndexOutOfRange"
| "completeFilterChains lname (chain # cs) (opt # opts) (fc # fcs) =
     (case completeFilterChains lname cs opts fcs of
        Inl e \<Rightarrow> Inl e
      | Inr rest \<Rightarrow> Inr (completeFilterChain lname chain opt fc # rest))"

definition buildCompleteFilterChain ::
  "Context \<Rightarrow> InputParams \<Rightarrow> MutableObjects \<Rightarrow> buildListenerOpts \<Rightarrow> failure + Listener" where
  "buildCompleteFilterChain ctx pluginParams mutable opts =
     (if length (filterChainOpts opts) = 0
      then Inl (BuildError ''must have more than 0 chains in listener'')
      else (case completeFilterChains (Name (MutableListener mutable)) (MutableFilterChains mutable)
                   (filterChainOpts opts) (FilterChains (MutableListener mutable)) of
              Inl e \<Rightarrow> Inl e
            | Inr fcs \<Rightarrow>
                (let l = (MutableListener mutable)\<lparr>FilterChains := fcs\<rparr>
                 in if \<not> skipUserFilters opts
                    then (case DeprecatedInsertUserFilters ctx pluginParams l of
                            Inl err \<Rightarrow> Inl (BuildError err)
                          | Inr fcs' \<Rightarrow> Inr (l\<lparr>FilterChains := fcs'\<rparr>))
                    else Inr l)))"

subsection \<open>Outbound: options for an HTTP or a TCP unit\<close>

text \<open>What the two option builders hand back through their results and pointer
  arguments.\<close>

record optsOutcome =
  ret :: bool
  opts :: "filterChainOpts list"
  destinationCIDR :: string
  listenerMapKey :: string
  currentListenerEntry :: "outboundListenerEntry option"
  outListenerOpts :: buildListenerOpts
  outListenerMap :: registry
  outPush :: PushContext

definition buildSidecarOutboundHTTPListenerOptsForPortOrUDS ::
  "Context \<Rightarrow> buildListenerOpts \<Rightarrow> InputParams \<Rightarrow> registry \<Rightarrow> string \<Rightarrow> PushContext
     \<Rightarrow> failure + optsOutcome" where
  "buildSidecarOutboundHTTPListenerOptsForPortOrUDS ctx listenerOpts pluginParams listenerMap
       actualWildcard push =
     (let lo = (if length (bind listenerOpts) = 0 then listenerOpts\<lparr>bind := actualWildcard\<rparr>
                else listenerOpts);
          key = listenerMapKeyOf (bind lo) (PortNumber (ParamPort pluginParams));
          out = \<lparr>ret = False, opts = [], destinationCIDR = [], listenerMapKey = key,
                 currentListenerEntry = listenerMap key, outListenerOpts = lo,
                 outListenerMap = listenerMap, outPush = push\<rparr>
      in case listenerMap key of
           Some cur \<Rightarrow>
             if locked cur then Inr out
             else (case ParamService pluginParams of
                     None \<Rightarrow> Inr out
                   | Some svc \<Rightarrow>
                       (case (if \<not> IsHTTP (PortProtocol (servicePort cur))
                              then addMetric
                                     \<lparr>conflictMetric = ProxyStatusConflictOutboundListenerTCPOverHTTP,
                                      listenerName = key,
                                      currentProtocol = PortProtocol (servicePort cur),
                                      currentServices = services cur,
                                      newHostname = Hostname svc,
                                      newProtocol = PortProtocol (ParamPort pluginParams)\<rparr> push
                              else Inr push) of
                          Inl e \<Rightarrow> Inl e
                        | Inr push' \<Rightarrow>
                            (let cur' = cur\<lparr>services := services cur @ [Some svc]\<rparr>
                             in Inr (out\<lparr>currentListenerEntry := Some cur',
                                         outListenerMap := listenerMap(key \<mapsto> cur'),
                                         outPush := push'\<rparr>))))
         | None \<Rightarrow>
             (let rdsName = (if PortNumber (ParamPort pluginParams) = 0 then bind lo
                             else formatInt (PortNumber (ParamPort pluginParams)));
                  h = \<lparr>routeConfig = None, rds = rdsName,
                       connectionManager =
                         (if HTTP10 ctx \<or> MetadataHTTP10 (ParamNode pluginParams) = ''1''
                          then Some \<lparr>ForwardClientCertDetails = False, Http2ProtocolOptions = False,
                                     AcceptHttp_10 = True, AllowAbsoluteUrl = False\<rparr>
                          else None),
                       statPrefix = [], direction = EGRESS, addGRPCWebFilter = False,
                       useRemoteAddress = UseRemoteAddress ctx\<rparr>
              in Inr (out\<lparr>ret := True, opts := [emptyFilterChainOpts\<lparr>httpOpts := Some h\<rparr>]\<rparr>)))"

text \<open>The bind of a TCP unit with no bind of its own: the service address when it is a
  plain address, the wildcard with a destination CIDR when it has a slash, unchanged when
  the address is empty. Reading the address of a nil service panics.\<close>

definition tcpListenAddress ::
  "buildListenerOpts \<Rightarrow> InputParams \<Rightarrow> string \<Rightarrow> failure + string \<times> buildListenerOpts" where
  "tcpListenAddress listenerOpts pluginParams actualWildcard =
     (if length (bind listenerOpts) = 0 then
        (case ParamService pluginParams of
           None \<Rightarrow> Inl NilPointerDereference
         | Some svc \<Rightarrow>
             (let svcListenAddress = ServiceAddress svc
              in if 0 < length svcListenAddress then
                   if CHR ''/'' \<notin> set svcListenAddress
                   then Inr ([], listenerOpts\<lparr>bind := svcListenAddress\<rparr>)
                   else Inr (svcListenAddress, listenerOpts\<lparr>bind := actualWildcard\<rparr>)
                 else Inr ([], listenerOpts)))
      else Inr ([], listenerOpts))"

definition buildSidecarOutboundTCPListenerOptsForPortOrUDS ::
  "Context \<Rightarrow> buildListenerOpts \<Rightarrow> InputParams \<Rightarrow> registry \<Rightarrow> string list \<Rightarrow> string
     \<Rightarrow> PushContext \<Rightarrow> failure + optsOutcome" where
  "buildSidecarOutboundTCPListenerOptsForPortOrUDS ctx listenerOpts pluginParams listenerMap
       virtualServices actualWildcard push =
     (case tcpListenAddress listenerOpts pluginParams actualWildcard of
        Inl e \<Rightarrow> Inl e
      | Inr (cidr, lo) \<Rightarrow>
          (let key = listenerMapKeyOf (bind lo) (PortNumber (ParamPort pluginParams));
               out = \<lparr>ret = False, opts = [], destinationCIDR = cidr, listenerMapKey = key,
                      currentListenerEntry = listenerMap key, outListenerOpts = lo,
                      outListenerMap = listenerMap, outPush = push\<rparr>;
               proceed = out\<lparr>ret := True,
                             opts := buildSidecarOutboundTCPTLSFilterChainOpts ctx virtualServices
                                       cidr (ParamService pluginParams) (ParamPort pluginParams)\<rparr>
           in case listenerMap key of
                Some cur \<Rightarrow>
                  if locked cur then Inr out
                  else if \<not> IsTCP (PortProtocol (servicePort cur)) then
                    (case addMetric
                            \<lparr>conflictMetric = ProxyStatusConflictOutboundListenerHTTPOverTCP,
                             listenerName = key,
                             currentProtocol = PortProtocol (servicePort cur),
                             currentServices = services cur,
                             newHostname =
                               (case ParamService pluginParams of
                                  Some svc \<Rightarrow> Hostname svc
                                | None \<Rightarrow> ''sidecar-config-egress-http-listener''),
                             newProtocol = PortProtocol (ParamPort pluginParams)\<rparr> push of
                       Inl e \<Rightarrow> Inl e
                     | Inr push' \<Rightarrow> Inr (out\<lparr>outPush := push'\<rparr>))
                  else Inr proceed
              | None \<Rightarrow> Inr proceed))"

subsection \<open>Outbound: building and committing one listener\<close>

definition BlackHoleCluster :: string where
  "BlackHoleCluster = ''BlackHoleCluster''"

text \<open>Running one plugin hook on the mutable objects; a hook's error is only logged.\<close>

definition applyHook :: "ListenerHook \<Rightarrow> InputParams \<Rightarrow> MutableObjects \<Rightarrow> MutableObjects" where
  "applyHook h pluginParams mutable =
     (let r = h pluginParams (FilterChains (MutableListener mutable), MutableFilterChains mutable)
      in mutable\<lparr>MutableListener := (MutableListener mutable)\<lparr>FilterChains := fst r\<rparr>,
                 MutableFilterChains := snd r\<rparr>)"

text \<open>
  From the blackhole chain to \<open>buildCompleteFilterChain\<close>: the chain matching the proxy's
  own addresses is prepended on a wildcard bind, the listener is built, the fallthrough
  chain is appended, the plugins run in registration order, and the filters are assembled.
\<close>

definition buildOutboundListener ::
  "Context \<Rightarrow> InputParams \<Rightarrow> buildListenerOpts \<Rightarrow> string \<Rightarrow> outboundListenerEntry option
     \<Rightarrow> failure + Listener" where
  "buildOutboundListener ctx pluginParams listenerOpts actualWildcard cur =
     (let lo1 = (if bind listenerOpts = actualWildcard \<and> RestrictPodIPTrafficLoops ctx
                 then listenerOpts\<lparr>filterChainOpts :=
                        emptyFilterChainOpts\<lparr>destinationCIDRs := IPAddresses (ParamNode pluginParams),
                                             networkFilters := [TCPProxy BlackHoleCluster]\<rparr>
                        # filterChainOpts listenerOpts\<rparr>
                 else listenerOpts);
          r = appendListenerFallthroughRoute ctx (buildListener ctx lo1) lo1 cur;
          l = (fst r)\<lparr>ListenerDirection := OUTBOUND\<rparr>;
          mutable0 = \<lparr>MutableListener = l,
                      MutableFilterChains = replicate (length (FilterChains l)) emptyPluginFilterChain\<rparr>;
          mutable = fold (\<lambda>p m. applyHook (OnOutboundListener p) pluginParams m) (Plugins ctx) mutable0
      in buildCompleteFilterChain ctx pluginParams mutable (snd r))"

text \<open>The inner loop \<open>compareWithExisting\<close>: whether some existing chain has the incoming
  chain's match, both absent or both present and deeply equal.\<close>

fun conflictFound :: "FilterChain list \<Rightarrow> FilterChain \<Rightarrow> bool" where
  "conflictFound [] incomingFilterChain = False"
| "conflictFound (existingFilterChain # rest) incomingFilterChain =
     (case ChainMatch existingFilterChain of
        None \<Rightarrow>
          (case ChainMatch incomingFilterChain of
             None \<Rightarrow> True
           | Some im \<Rightarrow> conflictFound rest incomingFilterChain)
      | Some em \<Rightarrow>
          (case ChainMatch incomingFilterChain of
             None \<Rightarrow> conflictFound rest incomingFilterChain
           | Some im \<Rightarrow> if em = im then True else conflictFound rest incomingFilterChain))"

definition tcpConflictHostname :: "InputParams \<Rightarrow> string" where
  "tcpConflictHostname pluginParams =
     (case ParamService pluginParams of
        Some svc \<Rightarrow> Hostname svc
      | None \<Rightarrow> ''sidecar-config-egress-tcp-listener'')"

text \<open>
  The loop over the incoming chains of a TCP-over-TCP merge. The existing chains are those
  of the current entry before the merge; the state is the new chain list, the entry's
  services and the status sink.
\<close>

fun mergeFilterChains ::
  "string \<Rightarrow> InputParams \<Rightarrow> outboundListenerEntry \<Rightarrow> FilterChain list
     \<Rightarrow> FilterChain list \<times> Service option list \<times> PushContext
     \<Rightarrow> failure + FilterChain list \<times> Service option list \<times> PushContext" where
  "mergeFilterChains key pluginParams cur [] st = Inr st"
| "mergeFilterChains key pluginParams cur (incomingFilterChain # rest) (newFilterChains, svcs, push) =
     (if conflictFound (FilterChains (listener cur)) incomingFilterChain then
        (case addMetric
                \<lparr>conflictMetric = ProxyStatusConflictOutboundListenerTCPOverTCP,
                 listenerName = key,
                 currentProtocol = PortProtocol (servicePort cur),
                 currentServices = svcs,
                 newHostname = tcpConflictHostname pluginParams,
                 newProtocol = PortProtocol (ParamPort pluginParams)\<rparr> push of
           Inl e \<Rightarrow> Inl e
         | Inr push' \<Rightarrow> mergeFilterChains key pluginParams cur rest (newFilterChains, svcs, push'))
      else mergeFilterChains key pluginParams cur rest
             (newFilterChains @ [incomingFilterChain],
              (case ParamService pluginParams of Some svc \<Rightarrow> svcs @ [Some svc] | None \<Rightarrow> svcs),
              push))"

text \<open>The end of the function: merge into the current entry, or create the entry.\<close>

definition commitOutboundListener ::
  "string \<Rightarrow> InputParams \<Rightarrow> string \<Rightarrow> Listener \<Rightarrow> outboundListenerEntry option \<Rightarrow> registry
     \<Rightarrow> PushContext \<Rightarrow> failure + registry \<times> PushContext" where
  "commitOutboundListener key pluginParams b l cur listenerMap push =
     (case cur of
        Some e \<Rightarrow>
          (case mergeFilterChains key pluginParams e (FilterChains l)
                  (FilterChains (listener e), services e, push) of
             Inl f \<Rightarrow> Inl f
           | Inr (newFilterChains, svcs, push') \<Rightarrow>
               Inr (listenerMap(key \<mapsto>
                      e\<lparr>services := svcs,
                        listener := (listener e)\<lparr>FilterChains := newFilterChains\<rparr>\<rparr>), push'))
      | None \<Rightarrow>
          Inr (listenerMap(key \<mapsto>
                 \<lparr>services = [ParamService pluginParams], servicePort = ParamPort pluginParams,
                  entryBind = b, listener = l, locked = False\<rparr>), push))"

definition outboundOpts ::
  "Context \<Rightarrow> buildListenerOpts \<Rightarrow> InputParams \<Rightarrow> registry \<Rightarrow> string list \<Rightarrow> string
     \<Rightarrow> PushContext \<Rightarrow> failure + optsOutcome option" where
  "outboundOpts ctx listenerOpts pluginParams listenerMap virtualServices actualWildcard push =
     (case ParamListenerProtocol pluginParams of
        ListenerProtocolHTTP \<Rightarrow>
          map_sum id Some (buildSidecarOutboundHTTPListenerOptsForPortOrUDS ctx listenerOpts
                             pluginParams listenerMap actualWildcard push)
      | ListenerProtocolTCP \<Rightarrow>
          map_sum id Some (buildSidecarOutboundTCPListenerOptsForPortOrUDS ctx listenerOpts
                             pluginParams listenerMap virtualServices actualWildcard push)
      | ListenerProtocolUnknown \<Rightarrow> Inr None)"

text \<open>
  \<open>buildSidecarOutboundListenerForPortOrUDS\<close>: the result is the conflict map and the
  status sink after the call. An assembly error is logged and the call returns; a panic
  is the result of the call.
\<close>

definition buildSidecarOutboundListenerForPortOrUDS ::
  "Context \<Rightarrow> buildListenerOpts \<Rightarrow> InputParams \<Rightarrow> registry \<Rightarrow> string list \<Rightarrow> string
     \<Rightarrow> PushContext \<Rightarrow> failure + registry \<times> PushContext" where
  "buildSidecarOutboundListenerForPortOrUDS ctx listenerOpts pluginParams listenerMap
       virtualServices actualWildcard push =
     (case outboundOpts ctx listenerOpts pluginParams listenerMap virtualServices actualWildcard push of
        Inl e \<Rightarrow> Inl e
      | Inr None \<Rightarrow> Inr (listenerMap, push)
      | Inr (Some out) \<Rightarrow>
          if \<not> ret out then Inr (outListenerMap out, outPush out)
          else (case buildOutboundListener ctx pluginParams
                       ((outListenerOpts out)\<lparr>filterChainOpts := opts out\<rparr>) actualWildcard
                       (currentListenerEntry out) of
                  Inl (BuildError msg) \<Rightarrow> Inr (outListenerMap out, outPush out)
                | Inl e \<Rightarrow> Inl e
                | Inr l \<Rightarrow>
                    commitOutboundListener (listenerMapKey out) pluginParams
                      (bind (outListenerOpts out)) l (currentListenerEntry out)
                      (outListenerMap out) (outPush out)))"

subsection \<open>Outbound stage\<close>

datatype CaptureMode = CaptureMode_DEFAULT | CaptureMode_IPTABLES | CaptureMode_NONE

text \<open>An egress listener of the sidecar scope. \<open>EgressPort\<close> is the user's port with its
  protocol already parsed (\<open>protocol.Parse\<close>), absent for the catch-all listener.\<close>

record IstioEgressListener =
  EgressPort :: "Port option"
  EgressBind :: string
  EgressCaptureMode :: CaptureMode

record EgressListener =
  IstioListener :: "IstioEgressListener option"
  EgressServices :: "Service list"
  EgressVirtualServices :: "string list"

text \<open>A loop whose body may panic: the first failure ends it.\<close>

fun forEach :: "('a \<Rightarrow> 's \<Rightarrow> failure + 's) \<Rightarrow> 'a list \<Rightarrow> 's \<Rightarrow> failure + 's" where
  "forEach body [] s = Inr s"
| "forEach body (x # xs) s =
     (case body x s of Inl e \<Rightarrow> Inl e | Inr s' \<Rightarrow> forEach body xs s')"

definition validatePort :: "Proxy \<Rightarrow> int \<Rightarrow> bool \<Rightarrow> bool" where
  "validatePort node i btp =
     (if \<not> btp then True
      else if i > 1024 then True
      else MetadataSidecarUID node = ''0'')"

text \<open>\<open>for _, e := range listenerMap { e.locked = true }\<close>.\<close>

definition lockAll :: "registry \<Rightarrow> registry" where
  "lockAll listenerMap = (\<lambda>k. map_option (\<lambda>e. e\<lparr>locked := True\<rparr>) (listenerMap k))"

definition egressBindToPort :: "Proxy \<Rightarrow> EgressListener \<Rightarrow> bool" where
  "egressBindToPort node egressListener =
     (if InterceptionNone node then True
      else (case IstioListener egressListener of
              None \<Rightarrow> False
            | Some il \<Rightarrow> EgressCaptureMode il = CaptureMode_NONE))"

definition outboundParams :: "Proxy \<Rightarrow> string \<Rightarrow> Port \<Rightarrow> Service \<Rightarrow> InputParams" where
  "outboundParams node b p service =
     \<lparr>ParamListenerProtocol = ModelProtocolToListenerProtocol (PortProtocol p),
      ParamNode = node, ParamServiceInstance = None, ParamPort = p, ParamBind = b,
      ParamService = Some service\<rparr>"

text \<open>The body of the loop over the egress listeners: an explicit-port listener resolves
  every service on the user's port and bind; the catch-all listener first locks every
  entry and then resolves every port of every service that the proxy may listen on.\<close>

definition processEgressListener ::
  "Context \<Rightarrow> Proxy \<Rightarrow> string \<Rightarrow> string \<Rightarrow> EgressListener \<Rightarrow> registry \<times> PushContext
     \<Rightarrow> failure + registry \<times> PushContext" where
  "processEgressListener ctx node actualWildcard actualLocalHostAddress egressListener st =
     (let bindToPort' = egressBindToPort node egressListener;
          explicit = (case IstioListener egressListener of
                        None \<Rightarrow> None
                      | Some il \<Rightarrow> (case EgressPort il of None \<Rightarrow> None | Some p \<Rightarrow> Some (il, p)))
      in case explicit of
           Some (il, listenPort) \<Rightarrow>
             (let b = (if bindToPort' \<and> EgressBind il = [] then actualLocalHostAddress
                       else if length (EgressBind il) = 0 then actualWildcard
                       else EgressBind il)
              in forEach
                   (\<lambda>service (listenerMap, push).
                      buildSidecarOutboundListenerForPortOrUDS ctx
                        \<lparr>bind = b, port = PortNumber listenPort, filterChainOpts = [],
                         bindToPort = bindToPort', skipUserFilters = False\<rparr>
                        (outboundParams node b listenPort service) listenerMap
                        (EgressVirtualServices egressListener) actualWildcard push)
                   (EgressServices egressListener) st)
         | None \<Rightarrow>
             (let b0 = (case IstioListener egressListener of
                          None \<Rightarrow> []
                        | Some il \<Rightarrow> if EgressBind il \<noteq> [] then EgressBind il else []);
                  b = (if bindToPort' \<and> b0 = [] then actualLocalHostAddress else b0)
              in forEach
                   (\<lambda>service.
                      forEach
                        (\<lambda>servicePort' (listenerMap, push).
                           if \<not> validatePort node (PortNumber servicePort') bindToPort'
                           then Inr (listenerMap, push)
                           else buildSidecarOutboundListenerForPortOrUDS ctx
                                  \<lparr>bind = b, port = PortNumber servicePort', filterChainOpts = [],
                                   bindToPort = bindToPort', skipUserFilters = False\<rparr>
                                  (outboundParams node b servicePort' service) listenerMap
                                  (EgressVirtualServices egressListener) actualWildcard push)
                        (Ports service))
                   (EgressServices egressListener) (lockAll (fst st), snd st)))"

text \<open>The conflict map and the status sink after all egress listeners, from an empty map.\<close>

definition outboundListenerMap ::
  "Context \<Rightarrow> Proxy \<Rightarrow> EgressListener list \<Rightarrow> PushContext \<Rightarrow> failure + registry \<times> PushContext" where
  "outboundListenerMap ctx node egressListeners push =
     (let wl = getActualWildcardAndLocalHost (ParseIPFn ctx) (IPAddresses node)
      in forEach (processEgressListener ctx node (fst wl) (snd wl)) egressListeners
           (Map.empty, push))"

text \<open>
  The validation loop \<open>for name, l := range listenerMap\<close>. Go leaves the iteration order
  of a map unspecified; \<open>order\<close> is the order in which this run of the loop meets the
  keys. A listener that fails validation is skipped, a TCP one goes to the first list,
  any other to the second.
\<close>

fun collateListeners ::
  "Context \<Rightarrow> registry \<Rightarrow> string list \<Rightarrow> Listener list \<times> Listener list
     \<Rightarrow> Listener list \<times> Listener list" where
  "collateListeners ctx listenerMap [] acc = acc"
| "collateListeners ctx listenerMap (name # order) (tcpListeners, httpListeners) =
     (case listenerMap name of
        None \<Rightarrow> collateListeners ctx listenerMap order (tcpListeners, httpListeners)
      | Some l \<Rightarrow>
          if \<not> Validate ctx (listener l)
          then collateListeners ctx listenerMap order (tcpListeners, httpListeners)
          else if IsTCP (PortProtocol (servicePort l))
          then collateListeners ctx listenerMap order (tcpListeners @ [listener l], httpListeners)
          else collateListeners ctx listenerMap order (tcpListeners, httpListeners @ [listener l]))"

definition RDSHttpProxy :: string where
  "RDSHttpProxy = ''http_proxy''"

definition buildHTTPProxy :: "Context \<Rightarrow> Proxy \<Rightarrow> failure + Listener option" where
  "buildHTTPProxy ctx node =
     (let httpProxyPort = (if ProxyHttpPort ctx = 0 \<and> InterceptionNone node
                           then DefaultPortHTTPProxy ctx else ProxyHttpPort ctx)
      in if httpProxyPort = 0 then Inr None
         else
           (let listenAddress = snd (getActualWildcardAndLocalHost (ParseIPFn ctx) (IPAddresses node));
                lopts = \<lparr>bind = listenAddress, port = httpProxyPort,
                         filterChainOpts =
                           [emptyFilterChainOpts\<lparr>httpOpts := Some
                              \<lparr>routeConfig = None, rds = RDSHttpProxy,
                               connectionManager = Some
                                 \<lparr>ForwardClientCertDetails = False, Http2ProtocolOptions = False,
                                  AcceptHttp_10 = (HTTP10 ctx \<or> MetadataHTTP10 node = ''1''),
                                  AllowAbsoluteUrl = True\<rparr>,
                               statPrefix = [], direction = EGRESS, addGRPCWebFilter = False,
                               useRemoteAddress = False\<rparr>\<rparr>],
                         bindToPort = True, skipUserFilters = True\<rparr>;
                mutable = \<lparr>MutableListener = buildListener ctx lopts,
                           MutableFilterChains = [emptyPluginFilterChain]\<rparr>;
                pluginParams = \<lparr>ParamListenerProtocol = ListenerProtocolHTTP, ParamNode = node,
                                ParamServiceInstance = None,
                                ParamPort = \<lparr>PortName = [], PortNumber = 0, PortProtocol = Unsupported\<rparr>,
                                ParamBind = [], ParamService = None\<rparr>
            in case buildCompleteFilterChain ctx pluginParams mutable lopts of
                 Inl (BuildError msg) \<Rightarrow> Inr None
               | Inl e \<Rightarrow> Inl e
               | Inr l \<Rightarrow> Inr (Some l)))"

text \<open>
  \<open>buildSidecarOutboundListeners\<close>: the listeners of the conflict map, TCP ones first,
  followed by the HTTP proxy listener when there is one.
\<close>

definition buildSidecarOutboundListeners ::
  "Context \<Rightarrow> Proxy \<Rightarrow> EgressListener list \<Rightarrow> string list \<Rightarrow> PushContext
     \<Rightarrow> failure + Listener list \<times> PushContext" where
  "buildSidecarOutboundListeners ctx node egressListeners order push =
     (case outboundListenerMap ctx node egressListeners push of
        Inl e \<Rightarrow> Inl e
      | Inr (listenerMap, push') \<Rightarrow>
          (let r = collateListeners ctx listenerMap order ([], []);
               tcpListeners = fst r @ snd r
           in case buildHTTPProxy ctx node of
                Inl e \<Rightarrow> Inl e
              | Inr None \<Rightarrow> Inr (tcpListeners, push')
              | Inr (Some httpProxy) \<Rightarrow>
                  Inr (tcpListeners @ [httpProxy\<lparr>ListenerDirection := OUTBOUND\<rparr>], push')))"

subsection \<open>Inbound stage\<close>

definition EnvoyServerName :: string where
  "EnvoyServerName = ''istio-envoy''"

definition buildSidecarInboundHTTPListenerOptsForPortOrUDS ::
  "Context \<Rightarrow> Proxy \<Rightarrow> ServiceInstance \<Rightarrow> httpListenerOpts" where
  "buildSidecarInboundHTTPListenerOptsForPortOrUDS ctx node instance =
     (let proto = PortProtocol (ServicePort (Endpoint instance))
      in \<lparr>routeConfig = Some (buildSidecarInboundHTTPRouteConfig ctx instance),
          rds = [],
          connectionManager = Some
            \<lparr>ForwardClientCertDetails = True, Http2ProtocolOptions = IsHTTP2 proto,
             AcceptHttp_10 = (HTTP10 ctx \<or> MetadataHTTP10 node = ''1''),
             AllowAbsoluteUrl = False\<rparr>,
          statPrefix = [], direction = INGRESS,
          addGRPCWebFilter = (IsHTTP2 proto \<and> proto = GRPCWeb),
          useRemoteAddress = False\<rparr>)"

text \<open>
  The loop over the inbound chains. The protocol switch sits inside the loop: an
  unsupported protocol makes the function return no listener (the result \<open>None\<close>) at the
  first chain. The HTTP options and the warning read the service instance, which panics
  when it is nil.
\<close>

fun inboundFilterChainOpts ::
  "Context \<Rightarrow> Proxy \<Rightarrow> InputParams \<Rightarrow> PluginFilterChain list
     \<Rightarrow> failure + filterChainOpts list option" where
  "inboundFilterChainOpts ctx node pluginParams [] = Inr (Some [])"
| "inboundFilterChainOpts ctx node pluginParams (chain # rest) =
     (case ParamListenerProtocol pluginParams of
        ListenerProtocolHTTP \<Rightarrow>
          (case ParamServiceInstance pluginParams of
             None \<Rightarrow> Inl NilPointerDereference
           | Some instance \<Rightarrow>
               (case inboundFilterChainOpts ctx node pluginParams rest of
                  Inl e \<Rightarrow> Inl e
                | Inr None \<Rightarrow> Inr None
                | Inr (Some os) \<Rightarrow>
                    Inr (Some (\<lparr>sniHosts = [], destinationCIDRs = [], metadata = None,
                                 tlsContext = PluginTLSContext chain,
                                 httpOpts = Some (buildSidecarInboundHTTPListenerOptsForPortOrUDS
                                                    ctx node instance),
                                 match = PluginFilterChainMatch chain,
                                 listenerFilters = PluginListenerFilters chain,
                                 networkFilters = []\<rparr> # os))))
      | ListenerProtocolTCP \<Rightarrow>
          (case inboundFilterChainOpts ctx node pluginParams rest of
             Inl e \<Rightarrow> Inl e
           | Inr None \<Rightarrow> Inr None
           | Inr (Some os) \<Rightarrow>
               Inr (Some (\<lparr>sniHosts = [], destinationCIDRs = [], metadata = None,
                            tlsContext = PluginTLSContext chain,
                            httpOpts = None,
                            match = PluginFilterChainMatch chain,
                            listenerFilters = PluginListenerFilters chain,
                            networkFilters = buildInboundNetworkFilters ctx
                                               (ParamServiceInstance pluginParams)\<rparr> # os)))
      | ListenerProtocolUnknown \<Rightarrow>
          (case ParamServiceInstance pluginParams of
             None \<Rightarrow> Inl NilPointerDereference
           | Some instance \<Rightarrow> Inr None))"

type_synonym inboundMap = "string \<rightharpoonup> inboundListenerEntry"

text \<open>
  \<open>buildSidecarInboundListenerForPortOrUDS\<close>: the result is the listener (\<open>None\<close> for
  Go's \<open>nil\<close>), the stage's map and the status sink.
\<close>

definition buildSidecarInboundListenerForPortOrUDS ::
  "Context \<Rightarrow> Proxy \<Rightarrow> buildListenerOpts \<Rightarrow> InputParams \<Rightarrow> inboundMap \<Rightarrow> PushContext
     \<Rightarrow> failure + Listener option \<times> inboundMap \<times> PushContext" where
  "buildSidecarInboundListenerForPortOrUDS ctx node listenerOpts pluginParams listenerMap push =
     (let key = listenerMapKeyOf (bind listenerOpts) (port listenerOpts)
      in case listenerMap key of
           Some old \<Rightarrow>
             (case ParamServiceInstance pluginParams of
                None \<Rightarrow> Inl NilPointerDereference
              | Some instance \<Rightarrow>
                  Inr (None, listenerMap,
                       push @ [InboundConflict key (instanceHostname old)
                                 (Hostname (InstanceService instance))]))
         | None \<Rightarrow>
             (let contributed = concat (map (\<lambda>p. OnInboundFilterChains p pluginParams) (Plugins ctx))
              in case (if length contributed \<noteq> 0 then Inr contributed
                       else (case ParamServiceInstance pluginParams of
                               None \<Rightarrow> Inl NilPointerDereference
                             | Some instance \<Rightarrow> Inr [emptyPluginFilterChain])) of
                   Inl e \<Rightarrow> Inl e
                 | Inr allChains \<Rightarrow>
                     (case inboundFilterChainOpts ctx node pluginParams allChains of
                        Inl e \<Rightarrow> Inl e
                      | Inr None \<Rightarrow> Inr (None, listenerMap, push)
                      | Inr (Some os) \<Rightarrow>
                          (let lo = listenerOpts\<lparr>filterChainOpts := filterChainOpts listenerOpts @ os\<rparr>;
                               l = (buildListener ctx lo)\<lparr>ListenerDirection := INBOUND\<rparr>;
                               mutable0 = \<lparr>MutableListener = l,
                                           MutableFilterChains =
                                             replicate (length (FilterChains l)) emptyPluginFilterChain\<rparr>;
                               mutable = fold (\<lambda>p m. applyHook (OnInboundListener p) pluginParams m)
                                           (Plugins ctx) mutable0
                           in case buildCompleteFilterChain ctx pluginParams mutable lo of
                                Inl (BuildError msg) \<Rightarrow> Inr (None, listenerMap, push)
                              | Inl e \<Rightarrow> Inl e
                              | Inr built \<Rightarrow>
                                  (case ParamServiceInstance pluginParams of
                                     None \<Rightarrow> Inl NilPointerDereference
                                   | Some instance \<Rightarrow>
                                       Inr (Some built,
                                            listenerMap(key \<mapsto>
                                              \<lparr>inboundBind = bind listenerOpts,
                                               instanceHostname = Hostname (InstanceService instance)\<rparr>),
                                            push))))))"

text \<open>The body shared by both loops of \<open>buildSidecarInboundListeners\<close>: build the listener
  of one unit and append it when it is not nil.\<close>

fun inboundListenersFor ::
  "Context \<Rightarrow> Proxy \<Rightarrow> (buildListenerOpts \<times> InputParams) list
     \<Rightarrow> Listener list \<times> inboundMap \<times> PushContext
     \<Rightarrow> failure + Listener list \<times> inboundMap \<times> PushContext" where
  "inboundListenersFor ctx node [] st = Inr st"
| "inboundListenersFor ctx node ((listenerOpts, pluginParams) # units) (listeners, listenerMap, push) =
     (case buildSidecarInboundListenerForPortOrUDS ctx node listenerOpts pluginParams listenerMap push of
        Inl e \<Rightarrow> Inl e
      | Inr (None, listenerMap', push') \<Rightarrow>
          inboundListenersFor ctx node units (listeners, listenerMap', push')
      | Inr (Some l, listenerMap', push') \<Rightarrow>
          inboundListenersFor ctx node units (listeners @ [l], listenerMap', push'))"

text \<open>The unit of a service instance, for a proxy without custom ingress listeners: the
  listener binds the endpoint's address and port, never bind-to-port.\<close>

definition inboundUnitOfInstance :: "Proxy \<Rightarrow> ServiceInstance \<Rightarrow> buildListenerOpts \<times> InputParams" where
  "inboundUnitOfInstance node instance =
     (\<lparr>bind = EndpointAddress (Endpoint instance), port = EndpointPort (Endpoint instance),
       filterChainOpts = [], bindToPort = False, skipUserFilters = False\<rparr>,
      \<lparr>ParamListenerProtocol =
         ModelProtocolToListenerProtocol (PortProtocol (ServicePort (Endpoint instance))),
       ParamNode = node, ParamServiceInstance = Some instance,
       ParamPort = ServicePort (Endpoint instance),
       ParamBind = EndpointAddress (Endpoint instance), ParamService = None\<rparr>)"

text \<open>\<open>buildSidecarInboundListeners\<close> for a sidecar scope without custom ingress
  listeners: nothing in interception mode NONE, else one unit per service instance.\<close>

definition buildSidecarInboundListenersFromInstances ::
  "Context \<Rightarrow> Proxy \<Rightarrow> ServiceInstance list \<Rightarrow> PushContext
     \<Rightarrow> failure + Listener list \<times> PushContext" where
  "buildSidecarInboundListenersFromInstances ctx node instances push =
     (if InterceptionNone node then Inr ([], push)
      else (case inboundListenersFor ctx node (map (inboundUnitOfInstance node) instances)
                   ([], Map.empty, push) of
              Inl e \<Rightarrow> Inl e
            | Inr (listeners, listenerMap, push') \<Rightarrow> Inr (listeners, push')))"

subsection \<open>Sample inputs\<close>

text \<open>Collaborators for evaluation at concrete inputs: no plugins, no user filters, every
  listener valid, one TCP proxy chain per TCP service with the destination CIDR it was
  given, and the fallthrough route enabled.\<close>

definition sampleConvertAddressToCidr :: "string \<Rightarrow> CidrRange option" where
  "sampleConvertAddressToCidr d =
     (if d = [] then None
      else if d = ''10.0.0.0/8'' then Some \<lparr>AddressPrefix = ''10.0.0.0'', PrefixLen = 8\<rparr>
      else if CHR ''/'' \<in> set d then None
      else Some \<lparr>AddressPrefix = d, PrefixLen = 32\<rparr>)"

definition sampleContext :: Context where
  "sampleContext =
     \<lparr>Plugins = [],
      ParseIPFn = sampleParseIP,
      ConvertAddressToCidr = sampleConvertAddressToCidr,
      DeprecatedInsertUserFilters = (\<lambda>pluginParams l. Inr (FilterChains l)),
      buildSidecarOutboundTCPTLSFilterChainOpts =
        (\<lambda>virtualServices cidr service p.
           [emptyFilterChainOpts\<lparr>destinationCIDRs := [cidr],
                                 networkFilters := [TCPProxy ''outbound'']\<rparr>]),
      buildInboundNetworkFilters = (\<lambda>instance. [TCPProxy ''inbound'']),
      buildSidecarInboundHTTPRouteConfig = (\<lambda>instance. ''inbound''),
      Validate = (\<lambda>l. True),
      RestrictPodIPTrafficLoops = False,
      EnableFallthroughRoute = True,
      isAllowAnyOutbound = True,
      UseRemoteAddress = False,
      HTTP10 = False,
      ProxyHttpPort = 0,
      DefaultPortHTTPProxy = 15002\<rparr>"

definition sampleNode :: Proxy where
  "sampleNode =
     \<lparr>ID = ''sidecar~10.1.2.3~a.default'', IPAddresses = [''10.1.2.3''],
      InterceptionNone = False, MetadataHTTP10 = [], MetadataSidecarUID = ''1337''\<rparr>"

definition samplePort :: "int \<Rightarrow> protocol_instance \<Rightarrow> Port" where
  "samplePort n p = \<lparr>PortName = ''port'', PortNumber = n, PortProtocol = p\<rparr>"

definition sampleService :: "string \<Rightarrow> string \<Rightarrow> Port list \<Rightarrow> Service" where
  "sampleService h a ps = \<lparr>Hostname = h, ServiceAddress = a, Ports = ps\<rparr>"

definition sampleListener :: "string \<Rightarrow> int \<Rightarrow> FilterChain list \<Rightarrow> Listener" where
  "sampleListener b p fcs =
     \<lparr>Name = listenerNameOf b p, Address = (b, p), ListenerFilters = [], FilterChains = fcs,
      DeprecatedV1 = Some False, ListenerDirection = OUTBOUND\<rparr>"

definition sampleEntry :: "string \<Rightarrow> Port \<Rightarrow> Service \<Rightarrow> FilterChain list \<Rightarrow> outboundListenerEntry" where
  "sampleEntry b p s fcs =
     \<lparr>services = [Some s], servicePort = p, entryBind = b,
      listener = sampleListener b (PortNumber p) fcs, locked = False\<rparr>"

definition sampleChain :: "FilterChainMatch option \<Rightarrow> FilterChain" where
  "sampleChain m = \<lparr>ChainMatch = m, TlsContext = None, Filters = [TCPProxy ''outbound''], Metadata = None\<rparr>"

definition sampleHTTPService :: Service where
  "sampleHTTPService = sampleService ''a.default.svc'' ''0.0.0.0'' [samplePort 9080 HTTP]"

definition sampleHTTPService2 :: Service where
  "sampleHTTPService2 = sampleService ''b.default.svc'' ''0.0.0.0'' [samplePort 9080 HTTP]"

definition sampleTCPService :: Service where
  "sampleTCPService = sampleService ''c.default.svc'' ''0.0.0.0'' [samplePort 9080 TCP]"

definition sampleCIDRService :: Service where
  "sampleCIDRService = sampleService ''d.default.svc'' ''10.0.0.0/8'' [samplePort 9080 TCP]"

text \<open>A conflict map with one unlocked HTTP entry on the wildcard bind, port 9080.\<close>

definition sampleHTTPEntry :: outboundListenerEntry where
  "sampleHTTPEntry = sampleEntry ''0.0.0.0'' (samplePort 9080 HTTP) sampleHTTPService [sampleChain None]"

definition sampleHTTPRegistry :: registry where
  "sampleHTTPRegistry = [''0.0.0.0:9080'' \<mapsto> sampleHTTPEntry]"

text \<open>The same with a TCP entry.\<close>

definition sampleTCPEntry :: outboundListenerEntry where
  "sampleTCPEntry = sampleEntry ''0.0.0.0'' (samplePort 9080 TCP) sampleTCPService [sampleChain None]"

definition sampleTCPRegistry :: registry where
  "sampleTCPRegistry = [''0.0.0.0:9080'' \<mapsto> sampleTCPEntry]"

definition sampleCatchAll :: "Service list \<Rightarrow> EgressListener" where
  "sampleCatchAll ss = \<lparr>IstioListener = None, EgressServices = ss, EgressVirtualServices = []\<rparr>"

definition sampleOpts :: "string \<Rightarrow> int \<Rightarrow> buildListenerOpts" where
  "sampleOpts b p = \<lparr>bind = b, port = p, filterChainOpts = [], bindToPort = False, skipUserFilters = False\<rparr>"

text \<open>The entry the sample HTTP service creates on the wildcard bind, port 9080.\<close>

definition sampleHTTPCreated :: outboundListenerEntry where
  "sampleHTTPCreated =
     \<lparr>services = [Some sampleHTTPService], servicePort = samplePort 9080 HTTP,
      entryBind = ''0.0.0.0'',
      listener =
        \<lparr>Name = ''0.0.0.0_9080'', Address = (''0.0.0.0'', 9080), ListenerFilters = [],
         FilterChains =
           [\<lparr>ChainMatch = None, TlsContext = None,
             Filters = [HTTPConnectionManagerFilter
                          \<lparr>routeConfig = None, rds = ''9080'', connectionManager = None,
                           statPrefix = ''0.0.0.0_9080'', direction = EGRESS,
                           addGRPCWebFilter = False, useRemoteAddress = False\<rparr> []],
             Metadata = None\<rparr>],
         DeprecatedV1 = Some False, ListenerDirection = OUTBOUND\<rparr>,
      locked = False\<rparr>"
subsection \<open>Address resolution: results\<close>

lemma getActualWildcardAndLocalHost_char:
  "getActualWildcardAndLocalHost parseIP ips =
     (if (\<exists>a \<in> set ips. \<exists>ip. parseIP a = Some ip \<and> To4 ip)
      then (WildcardAddress, LocalhostAddress)
      else (WildcardIPv6Address, LocalhostIPv6Address))"
  by (induction ips) (auto split: option.splits)

lemma getActualWildcardAndLocalHost_unparseable:
  "(\<And>a. a \<in> set ips \<Longrightarrow> parseIP a = None) \<Longrightarrow>
   getActualWildcardAndLocalHost parseIP ips = (WildcardIPv6Address, LocalhostIPv6Address)"
  by (simp add: getActualWildcardAndLocalHost_char)

text \<open>
  C9. The address resolution is claimed to return the IPv4 pair only for a proxy that is not
  loopback-only, and the function's own comment says "at least one ipv4 address other than
  127.0.0.1". The loop has no such test: a proxy whose only address is the IPv4 loopback
  address gets the IPv4 pair, where the claim and the comment give the IPv6 pair.
\<close>

theorem C9_loopback_only_gets_ipv4_pair:
  "getActualWildcardAndLocalHost sampleParseIP [''127.0.0.1''] = (''0.0.0.0'', ''127.0.0.1'')"
  by (simp add: sampleParseIP_def WildcardAddress_def LocalhostAddress_def)

subsection \<open>Outbound resolution: the cases of one call\<close>

lemma resolve_http_locked:
  assumes "ParamListenerProtocol pp = ListenerProtocolHTTP"
      and "listenerMap (listenerMapKeyOf (if bind lo = [] then w else bind lo) (PortNumber (ParamPort pp))) = Some e"
      and "locked e"
  shows "buildSidecarOutboundListenerForPortOrUDS ctx lo pp listenerMap vs w push = Inr (listenerMap, push)"
  using assms
  by (cases "bind lo = []")
     (simp_all add: buildSidecarOutboundListenerForPortOrUDS_def outboundOpts_def
      buildSidecarOutboundHTTPListenerOptsForPortOrUDS_def Let_def)

lemma resolve_tcp_locked:
  assumes "ParamListenerProtocol pp = ListenerProtocolTCP"
      and "tcpListenAddress lo pp w = Inr (cidr, lo')"
      and "listenerMap (listenerMapKeyOf (bind lo') (PortNumber (ParamPort pp))) = Some e"
      and "locked e"
  shows "buildSidecarOutboundListenerForPortOrUDS ctx lo pp listenerMap vs w push = Inr (listenerMap, push)"
  using assms
  by (simp add: buildSidecarOutboundListenerForPortOrUDS_def outboundOpts_def
      buildSidecarOutboundTCPListenerOptsForPortOrUDS_def Let_def)

lemma resolve_http_merge:
  assumes "ParamListenerProtocol pp = ListenerProtocolHTTP"
      and "ParamService pp = Some svc"
      and "listenerMap (listenerMapKeyOf (if bind lo = [] then w else bind lo) (PortNumber (ParamPort pp))) = Some e"
      and "\<not> locked e" and "IsHTTP (PortProtocol (servicePort e))"
  shows "buildSidecarOutboundListenerForPortOrUDS ctx lo pp listenerMap vs w push =
         Inr (listenerMap(listenerMapKeyOf (if bind lo = [] then w else bind lo) (PortNumber (ParamPort pp))
                \<mapsto> e\<lparr>services := services e @ [Some svc]\<rparr>), push)"
  using assms
  by (cases "bind lo = []")
     (simp_all add: buildSidecarOutboundListenerForPortOrUDS_def outboundOpts_def
      buildSidecarOutboundHTTPListenerOptsForPortOrUDS_def Let_def)

lemma resolve_http_over_tcp_service:
  assumes "ParamListenerProtocol pp = ListenerProtocolHTTP"
      and "ParamService pp = Some svc"
      and "listenerMap (listenerMapKeyOf (if bind lo = [] then w else bind lo) (PortNumber (ParamPort pp))) = Some e"
      and "\<not> locked e" and "\<not> IsHTTP (PortProtocol (servicePort e))"
      and "None \<notin> set (services e)"
  shows "buildSidecarOutboundListenerForPortOrUDS ctx lo pp listenerMap vs w push =
         Inr (listenerMap(listenerMapKeyOf (if bind lo = [] then w else bind lo) (PortNumber (ParamPort pp))
                \<mapsto> e\<lparr>services := services e @ [Some svc]\<rparr>),
              push @ [OutboundConflict ProxyStatusConflictOutboundListenerTCPOverHTTP
                (listenerMapKeyOf (if bind lo = [] then w else bind lo) (PortNumber (ParamPort pp)))
                (protocolName (PortProtocol (servicePort e)))
                (map (\<lambda>s. Hostname (the s)) (services e))
                (protocolName (PortProtocol (ParamPort pp))) (Hostname svc) (length (services e))])"
  using assms
  by (cases "bind lo = []")
     (simp_all add: buildSidecarOutboundListenerForPortOrUDS_def outboundOpts_def
      buildSidecarOutboundHTTPListenerOptsForPortOrUDS_def Let_def addMetric_def)

lemma resolve_http_no_service:
  assumes "ParamListenerProtocol pp = ListenerProtocolHTTP"
      and "ParamService pp = None"
      and "listenerMap (listenerMapKeyOf (if bind lo = [] then w else bind lo) (PortNumber (ParamPort pp))) = Some e"
  shows "buildSidecarOutboundListenerForPortOrUDS ctx lo pp listenerMap vs w push = Inr (listenerMap, push)"
  using assms
  by (cases "bind lo = []")
     (simp_all add: buildSidecarOutboundListenerForPortOrUDS_def outboundOpts_def
      buildSidecarOutboundHTTPListenerOptsForPortOrUDS_def Let_def)

lemma resolve_tcp_over_http:
  assumes "ParamListenerProtocol pp = ListenerProtocolTCP"
      and "tcpListenAddress lo pp w = Inr (cidr, lo')"
      and "listenerMap (listenerMapKeyOf (bind lo') (PortNumber (ParamPort pp))) = Some e"
      and "\<not> locked e" and "\<not> IsTCP (PortProtocol (servicePort e))"
      and "None \<notin> set (services e)"
  shows "buildSidecarOutboundListenerForPortOrUDS ctx lo pp listenerMap vs w push =
         Inr (listenerMap,
              push @ [OutboundConflict ProxyStatusConflictOutboundListenerHTTPOverTCP
                (listenerMapKeyOf (bind lo') (PortNumber (ParamPort pp)))
                (protocolName (PortProtocol (servicePort e)))
                (map (\<lambda>s. Hostname (the s)) (services e))
                (protocolName (PortProtocol (ParamPort pp)))
                (case ParamService pp of Some svc \<Rightarrow> Hostname svc
                                        | None \<Rightarrow> ''sidecar-config-egress-http-listener'')
                (length (services e))])"
  using assms
  by (simp add: buildSidecarOutboundListenerForPortOrUDS_def outboundOpts_def
      buildSidecarOutboundTCPListenerOptsForPortOrUDS_def Let_def addMetric_def)

lemma conflictFound_iff:
  "conflictFound existing incoming \<longleftrightarrow> ChainMatch incoming \<in> ChainMatch ` set existing"
  by (induction existing) (auto split: option.splits)

lemma resolve_http_create:
  assumes "ParamListenerProtocol pp = ListenerProtocolHTTP"
      and "listenerMap (listenerMapKeyOf (if bind lo = [] then w else bind lo) (PortNumber (ParamPort pp))) = None"
      and "buildSidecarOutboundListenerForPortOrUDS ctx lo pp listenerMap vs w push = Inr (m1, push1)"
  shows "push1 = push \<and>
         (m1 = listenerMap \<or>
          (\<exists>l. m1 = listenerMap(listenerMapKeyOf (if bind lo = [] then w else bind lo) (PortNumber (ParamPort pp))
                  \<mapsto> \<lparr>services = [ParamService pp], servicePort = ParamPort pp,
                           entryBind = (if bind lo = [] then w else bind lo), listener = l,
                           locked = False\<rparr>)))"
  using assms
  by (cases "bind lo = []")
     (auto simp: buildSidecarOutboundListenerForPortOrUDS_def outboundOpts_def
      buildSidecarOutboundHTTPListenerOptsForPortOrUDS_def Let_def commitOutboundListener_def
      split: sum.splits failure.splits)

lemma mergeFilterChains_char:
  assumes "None \<notin> set svcs"
  shows "\<exists>evs. mergeFilterChains key pp cur incoming (acc, svcs, push) =
           Inr (acc @ filter (\<lambda>c. \<not> conflictFound (FilterChains (listener cur)) c) incoming,
                svcs @ concat (map (\<lambda>c. case ParamService pp of Some svc \<Rightarrow> [Some svc] | None \<Rightarrow> [])
                                 (filter (\<lambda>c. \<not> conflictFound (FilterChains (listener cur)) c) incoming)),
                push @ evs)
         \<and> length evs = length (filter (conflictFound (FilterChains (listener cur))) incoming)
         \<and> (\<forall>ev \<in> set evs. \<exists>hs n. ev = OutboundConflict ProxyStatusConflictOutboundListenerTCPOverTCP key
                 (protocolName (PortProtocol (servicePort cur))) hs
                 (protocolName (PortProtocol (ParamPort pp))) (tcpConflictHostname pp) n)"
  using assms
proof (induction incoming arbitrary: acc svcs push)
  case Nil
  then show ?case by simp
next
  case (Cons c rest)
  show ?case
  proof (cases "conflictFound (FilterChains (listener cur)) c")
    case True
    let ?ev = "OutboundConflict ProxyStatusConflictOutboundListenerTCPOverTCP key
                 (protocolName (PortProtocol (servicePort cur))) (map (\<lambda>s. Hostname (the s)) svcs)
                 (protocolName (PortProtocol (ParamPort pp))) (tcpConflictHostname pp) (length svcs)"
    from Cons.IH[OF Cons.prems, of acc "push @ [?ev]"]
    obtain evs where evs:
      "mergeFilterChains key pp cur rest (acc, svcs, push @ [?ev]) =
         Inr (acc @ filter (\<lambda>c. \<not> conflictFound (FilterChains (listener cur)) c) rest,
              svcs @ concat (map (\<lambda>c. case ParamService pp of Some svc \<Rightarrow> [Some svc] | None \<Rightarrow> [])
                               (filter (\<lambda>c. \<not> conflictFound (FilterChains (listener cur)) c) rest)),
              (push @ [?ev]) @ evs)"
      "length evs = length (filter (conflictFound (FilterChains (listener cur))) rest)"
      "\<forall>ev \<in> set evs. \<exists>hs n. ev = OutboundConflict ProxyStatusConflictOutboundListenerTCPOverTCP key
                 (protocolName (PortProtocol (servicePort cur))) hs
                 (protocolName (PortProtocol (ParamPort pp))) (tcpConflictHostname pp) n"
      by blast
    show ?thesis
      by (rule exI[of _ "?ev # evs"]) (use True Cons.prems evs in \<open>simp add: addMetric_def\<close>)
  next
    case False
    let ?svcs = "(case ParamService pp of Some svc \<Rightarrow> svcs @ [Some svc] | None \<Rightarrow> svcs)"
    have n: "None \<notin> set ?svcs" using Cons.prems by (simp split: option.splits)
    from Cons.IH[OF n, of "acc @ [c]" push]
    obtain evs where evs:
      "mergeFilterChains key pp cur rest (acc @ [c], ?svcs, push) =
         Inr ((acc @ [c]) @ filter (\<lambda>c. \<not> conflictFound (FilterChains (listener cur)) c) rest,
              ?svcs @ concat (map (\<lambda>c. case ParamService pp of Some svc \<Rightarrow> [Some svc] | None \<Rightarrow> [])
                               (filter (\<lambda>c. \<not> conflictFound (FilterChains (listener cur)) c) rest)),
              push @ evs)"
      "length evs = length (filter (conflictFound (FilterChains (listener cur))) rest)"
      "\<forall>ev \<in> set evs. \<exists>hs n. ev = OutboundConflict ProxyStatusConflictOutboundListenerTCPOverTCP key
                 (protocolName (PortProtocol (servicePort cur))) hs
                 (protocolName (PortProtocol (ParamPort pp))) (tcpConflictHostname pp) n"
      by blast
    show ?thesis
      by (rule exI[of _ evs]) (use False evs in \<open>simp split: option.splits\<close>)
  qed
qed

subsection \<open>Locked entries\<close>

lemma lockAll_apply: "lockAll m k = map_option (\<lambda>e. e\<lparr>locked := True\<rparr>) (m k)"
  by (simp add: lockAll_def)

lemma forEach_invariant:
  assumes "forEach body xs s = Inr s'" and "P s"
      and "\<And>x t t'. x \<in> set xs \<Longrightarrow> P t \<Longrightarrow> body x t = Inr t' \<Longrightarrow> P t'"
  shows "P s'"
  using assms
proof (induction xs arbitrary: s)
  case Nil
  then show ?case by simp
next
  case (Cons x xs)
  then obtain t where t: "body x s = Inr t" "forEach body xs t = Inr s'"
    by (auto split: sum.splits)
  have pt: "P t" using Cons.prems(3)[of x s t] Cons.prems(2) t(1) by simp
  show ?case
  proof (rule Cons.IH[OF t(2) pt])
    fix y u u' assume "y \<in> set xs" "P u" "body y u = Inr u'"
    then show "P u'" using Cons.prems(3)[of y u u'] by simp
  qed
qed

lemma resolve_preserves_locked:
  assumes "listenerMap k = Some e" and "locked e"
      and "buildSidecarOutboundListenerForPortOrUDS ctx lo pp listenerMap vs w push = Inr (m', push')"
  shows "m' k = Some e"
proof (cases "ParamListenerProtocol pp")
  case ListenerProtocolUnknown
  then show ?thesis using assms
    by (simp add: buildSidecarOutboundListenerForPortOrUDS_def outboundOpts_def)
next
  case ListenerProtocolTCP
  then show ?thesis using assms
    by (auto simp: buildSidecarOutboundListenerForPortOrUDS_def outboundOpts_def
        buildSidecarOutboundTCPListenerOptsForPortOrUDS_def Let_def commitOutboundListener_def
        split: sum.splits failure.splits option.splits if_splits prod.splits)
next
  case ListenerProtocolHTTP
  then show ?thesis using assms
    by (cases "bind lo = []")
       (auto simp: buildSidecarOutboundListenerForPortOrUDS_def outboundOpts_def
        buildSidecarOutboundHTTPListenerOptsForPortOrUDS_def Let_def commitOutboundListener_def
        split: sum.splits failure.splits option.splits if_splits prod.splits)
qed


lemma catch_all_locks:
  assumes ca: "IstioListener el = None \<or> (\<exists>il. IstioListener el = Some il \<and> EgressPort il = None)"
      and run: "processEgressListener ctx node w lh el (listenerMap, push) = Inr (m', push')"
      and k: "listenerMap k = Some e"
  shows "m' k = Some (e\<lparr>locked := True\<rparr>)"
proof -
  let ?P = "\<lambda>st. fst st k = Some (e\<lparr>locked := True\<rparr>)"
  let ?btp = "egressBindToPort node el"
  obtain b where run':
    "forEach (\<lambda>service.
        forEach (\<lambda>servicePort' (listenerMap, push).
                   if \<not> validatePort node (PortNumber servicePort') ?btp then Inr (listenerMap, push)
                   else buildSidecarOutboundListenerForPortOrUDS ctx
                          \<lparr>bind = b, port = PortNumber servicePort', filterChainOpts = [],
                           bindToPort = ?btp, skipUserFilters = False\<rparr>
                          (outboundParams node b servicePort' service) listenerMap
                          (EgressVirtualServices el) w push)
                (Ports service))
       (EgressServices el) (lockAll listenerMap, push) = Inr (m', push')"
    using ca run by (auto simp: processEgressListener_def Let_def split: option.splits)
  have start: "?P (lockAll listenerMap, push)" using k by (simp add: lockAll_def)
  have "?P (m', push')"
  proof (rule forEach_invariant[where P="?P", OF run' start])
    fix service t t'
    assume pt: "?P t"
       and inner: "forEach (\<lambda>servicePort' (listenerMap, push).
                   if \<not> validatePort node (PortNumber servicePort') ?btp then Inr (listenerMap, push)
                   else buildSidecarOutboundListenerForPortOrUDS ctx
                          \<lparr>bind = b, port = PortNumber servicePort', filterChainOpts = [],
                           bindToPort = ?btp, skipUserFilters = False\<rparr>
                          (outboundParams node b servicePort' service) listenerMap
                          (EgressVirtualServices el) w push)
                (Ports service) t = Inr t'"
    show "?P t'"
    proof (rule forEach_invariant[where P="?P", OF inner pt])
      fix p u u'
      assume pu: "?P u"
         and step: "(case u of (listenerMap, push) \<Rightarrow>
                   if \<not> validatePort node (PortNumber p) ?btp then Inr (listenerMap, push)
                   else buildSidecarOutboundListenerForPortOrUDS ctx
                          \<lparr>bind = b, port = PortNumber p, filterChainOpts = [],
                           bindToPort = ?btp, skipUserFilters = False\<rparr>
                          (outboundParams node b p service) listenerMap
                          (EgressVirtualServices el) w push) = Inr u'"
      show "?P u'"
        using pu step resolve_preserves_locked[of "fst u" k "e\<lparr>locked := True\<rparr>" ctx _ _ _ w "snd u" "fst u'" "snd u'"]
        by (cases u; cases u') (auto split: if_splits)
    qed
  qed
  then show ?thesis by simp
qed

subsection \<open>Evaluation helpers\<close>

lemma formatInt_9080: "formatInt 9080 = ''9080''"
  by (simp add: formatInt_def formatNat.simps digit_char_def)

lemma sample_key_9080: "listenerMapKeyOf ''0.0.0.0'' 9080 = ''0.0.0.0:9080''"
  by (simp add: listenerMapKeyOf_def formatInt_9080)

lemmas outbound_eval =
  buildSidecarOutboundListenerForPortOrUDS_def outboundOpts_def
  buildSidecarOutboundHTTPListenerOptsForPortOrUDS_def
  buildSidecarOutboundTCPListenerOptsForPortOrUDS_def tcpListenAddress_def
  buildOutboundListener_def buildListener_def buildFilterChainMatch_def
  appendListenerFallthroughRoute_def isWildcardMatch_def needTLSInspector_def needsALPN_def
  buildCompleteFilterChain_def completeFilterChain_def applyHook_def
  commitOutboundListener_def addMetric_def tcpConflictHostname_def
  emptyFilterChainOpts_def emptyPluginFilterChain_def emptyFilterChainMatch_def
  listenerNameOf_def listenerMapKeyOf_def uint32_def formatInt_9080
  outboundParams_def ModelProtocolToListenerProtocol_def protocolName_def

lemmas sample_eval =
  sampleContext_def sampleNode_def samplePort_def sampleService_def sampleOpts_def
  sampleHTTPService_def sampleHTTPService2_def sampleTCPService_def sampleCIDRService_def
  sampleConvertAddressToCidr_def sampleListener_def sampleEntry_def sampleChain_def
  sampleHTTPEntry_def sampleTCPEntry_def sampleHTTPRegistry_def sampleTCPRegistry_def
  UnspecifiedIP_def PassthroughCluster_def

lemma sample_http_create:
  "buildSidecarOutboundListenerForPortOrUDS sampleContext (sampleOpts [] 9080)
         (outboundParams sampleNode [] (samplePort 9080 HTTP) sampleHTTPService)
         Map.empty [] ''0.0.0.0'' []
   = Inr ([''0.0.0.0:9080'' \<mapsto> sampleHTTPCreated], [])"
  by (simp add: outbound_eval sample_eval sampleHTTPCreated_def Let_def)

subsection \<open>C4: the catch-all rule locks, and a locked entry accepts nothing\<close>

text \<open>
  C4. Locking sets the locked flag of every entry and changes nothing else. Processing the
  catch-all egress rule leaves every entry that existed before it locked and otherwise
  exactly as it was: no chain, no contributing service is added. A resolution whose key
  holds a locked entry, for an HTTP unit and for a TCP unit, returns with the conflict map
  and the status sink unchanged, so no conflict record is emitted.
\<close>

theorem C4_locked_entry_accepts_nothing:
  "(listenerMap k = Some e \<longrightarrow> lockAll listenerMap k = Some (e\<lparr>locked := True\<rparr>))
   \<and> ((IstioListener el = None \<or> (\<exists>il. IstioListener el = Some il \<and> EgressPort il = None))
        \<and> processEgressListener ctx node w lh el (listenerMap, push) = Inr (m', push')
        \<and> listenerMap k = Some e
        \<longrightarrow> m' k = Some (e\<lparr>locked := True\<rparr>))
   \<and> (ParamListenerProtocol pp = ListenerProtocolHTTP
        \<and> registry (listenerMapKeyOf (if bind lo = [] then w else bind lo) (PortNumber (ParamPort pp))) = Some cur
        \<and> locked cur
        \<longrightarrow> buildSidecarOutboundListenerForPortOrUDS ctx lo pp registry vs w push = Inr (registry, push))
   \<and> (ParamListenerProtocol pt = ListenerProtocolTCP
        \<and> tcpListenAddress lt pt w = Inr (cidr, lt')
        \<and> registry (listenerMapKeyOf (bind lt') (PortNumber (ParamPort pt))) = Some cur
        \<and> locked cur
        \<longrightarrow> buildSidecarOutboundListenerForPortOrUDS ctx lt pt registry vs w push = Inr (registry, push))"
  using catch_all_locks[of el ctx node w lh listenerMap push m' push' k e]
        resolve_http_locked[of pp registry lo w cur ctx vs push]
        resolve_tcp_locked[of pt lt w cidr lt' registry cur ctx vs push]
  by (simp add: lockAll_def)

theorem C4_locked_entry_accepts_nothing_witness:
  "sampleHTTPRegistry ''0.0.0.0:9080'' = Some sampleHTTPEntry
   \<and> lockAll sampleHTTPRegistry ''0.0.0.0:9080'' = Some (sampleHTTPEntry\<lparr>locked := True\<rparr>)
   \<and> IstioListener (sampleCatchAll [sampleHTTPService2]) = None
   \<and> processEgressListener sampleContext sampleNode ''0.0.0.0'' ''127.0.0.1''
         (sampleCatchAll [sampleHTTPService2]) (sampleHTTPRegistry, [])
       = Inr (lockAll sampleHTTPRegistry, [])
   \<and> ParamListenerProtocol (outboundParams sampleNode [] (samplePort 9080 HTTP) sampleHTTPService2)
       = ListenerProtocolHTTP
   \<and> locked (sampleHTTPEntry\<lparr>locked := True\<rparr>)
   \<and> buildSidecarOutboundListenerForPortOrUDS sampleContext (sampleOpts [] 9080)
         (outboundParams sampleNode [] (samplePort 9080 HTTP) sampleHTTPService2)
         (lockAll sampleHTTPRegistry) [] ''0.0.0.0'' []
       = Inr (lockAll sampleHTTPRegistry, [])
   \<and> ParamListenerProtocol (outboundParams sampleNode [] (samplePort 9080 TCP) sampleTCPService)
       = ListenerProtocolTCP
   \<and> tcpListenAddress (sampleOpts [] 9080)
         (outboundParams sampleNode [] (samplePort 9080 TCP) sampleTCPService) ''0.0.0.0''
       = Inr ([], sampleOpts ''0.0.0.0'' 9080)
   \<and> buildSidecarOutboundListenerForPortOrUDS sampleContext (sampleOpts [] 9080)
         (outboundParams sampleNode [] (samplePort 9080 TCP) sampleTCPService)
         (lockAll sampleHTTPRegistry) [] ''0.0.0.0'' []
       = Inr (lockAll sampleHTTPRegistry, [])"
proof -
  have key: "listenerMapKeyOf ''0.0.0.0'' 9080 = ''0.0.0.0:9080''"
    by (simp add: listenerMapKeyOf_def formatInt_9080)
  have h1: "sampleHTTPRegistry ''0.0.0.0:9080'' = Some sampleHTTPEntry"
    by (simp add: sampleHTTPRegistry_def)
  have h2: "ParamListenerProtocol (outboundParams sampleNode [] (samplePort 9080 HTTP) sampleHTTPService2)
       = ListenerProtocolHTTP"
    by (simp add: outboundParams_def samplePort_def ModelProtocolToListenerProtocol_def)
  have h3: "ParamListenerProtocol (outboundParams sampleNode [] (samplePort 9080 TCP) sampleTCPService)
       = ListenerProtocolTCP"
    by (simp add: outboundParams_def samplePort_def ModelProtocolToListenerProtocol_def)
  have h4: "tcpListenAddress (sampleOpts [] 9080)
         (outboundParams sampleNode [] (samplePort 9080 TCP) sampleTCPService) ''0.0.0.0''
       = Inr ([], sampleOpts ''0.0.0.0'' 9080)"
    by (simp add: tcpListenAddress_def sampleOpts_def outboundParams_def sampleTCPService_def
        sampleService_def)
  have h5: "lockAll sampleHTTPRegistry ''0.0.0.0:9080'' = Some (sampleHTTPEntry\<lparr>locked := True\<rparr>)"
    by (simp add: lockAll_def sampleHTTPRegistry_def)
  have h6: "processEgressListener sampleContext sampleNode ''0.0.0.0'' ''127.0.0.1''
         (sampleCatchAll [sampleHTTPService2]) (sampleHTTPRegistry, [])
       = Inr (lockAll sampleHTTPRegistry, [])"
    using resolve_http_locked[OF h2, of "lockAll sampleHTTPRegistry" "sampleOpts [] 9080" "''0.0.0.0''"
            "sampleHTTPEntry\<lparr>locked := True\<rparr>" sampleContext "[]" "[]"] h5 key
    by (simp add: processEgressListener_def sampleCatchAll_def egressBindToPort_def sampleNode_def
        sampleHTTPService2_def sampleService_def validatePort_def samplePort_def sampleOpts_def
        outboundParams_def)
  show ?thesis
    using C4_locked_entry_accepts_nothing[where listenerMap = sampleHTTPRegistry and k = "''0.0.0.0:9080''"
            and e = sampleHTTPEntry and el = "sampleCatchAll [sampleHTTPService2]"
            and ctx = sampleContext and node = sampleNode and w = "''0.0.0.0''" and lh = "''127.0.0.1''"
            and push = "[]" and m' = "lockAll sampleHTTPRegistry" and push' = "[]"
            and pp = "outboundParams sampleNode [] (samplePort 9080 HTTP) sampleHTTPService2"
            and registry = "lockAll sampleHTTPRegistry" and lo = "sampleOpts [] 9080"
            and cur = "sampleHTTPEntry\<lparr>locked := True\<rparr>" and vs = "[]"
            and pt = "outboundParams sampleNode [] (samplePort 9080 TCP) sampleTCPService"
            and lt = "sampleOpts [] 9080" and cidr = "[]" and lt' = "sampleOpts ''0.0.0.0'' 9080"]
          h1 h2 h3 h4 h5 h6 key
    by (simp add: sampleCatchAll_def sampleOpts_def outboundParams_def samplePort_def)
qed

subsection \<open>C5: two HTTP services on one key\<close>

text \<open>
  C5. Two HTTP services are resolved one after the other on the same bind and port, the key
  being free before the first. When the first resolution has left an entry under the key,
  that entry is unlocked and has the first service as its only contributor, and the second
  resolution returns the same map with the same entry under the key, its listener (and so
  its filter chain list) untouched, and the second service appended to the contributors;
  the status sink receives nothing.
\<close>

theorem C5_two_http_services_share_one_listener:
  assumes "IsHTTP (PortProtocol p1)" and "IsHTTP (PortProtocol p2)"
      and "PortNumber p2 = PortNumber p1"
      and "bind lo1 = b" and "bind lo2 = b"
      and "key = listenerMapKeyOf (if b = [] then w else b) (PortNumber p1)"
      and "listenerMap key = None"
      and "buildSidecarOutboundListenerForPortOrUDS ctx lo1 (outboundParams node b p1 s1)
             listenerMap vs1 w push = Inr (m1, push1)"
      and "m1 key = Some e1"
  shows "services e1 = [Some s1] \<and> servicePort e1 = p1 \<and> \<not> locked e1 \<and> push1 = push \<and>
         buildSidecarOutboundListenerForPortOrUDS ctx lo2 (outboundParams node b p2 s2)
             m1 vs2 w push1
           = Inr (m1(key \<mapsto> e1\<lparr>services := [Some s1, Some s2]\<rparr>), push1)"
proof -
  let ?pp1 = "outboundParams node b p1 s1"
  let ?pp2 = "outboundParams node b p2 s2"
  have http1: "ParamListenerProtocol ?pp1 = ListenerProtocolHTTP"
    using assms(1) by (simp add: outboundParams_def ModelProtocolToListenerProtocol_def)
  have http2: "ParamListenerProtocol ?pp2 = ListenerProtocolHTTP"
    using assms(2) by (simp add: outboundParams_def ModelProtocolToListenerProtocol_def)
  have k1: "listenerMapKeyOf (if bind lo1 = [] then w else bind lo1) (PortNumber (ParamPort ?pp1)) = key"
    using assms(4,6) by (simp add: outboundParams_def)
  have k2: "listenerMapKeyOf (if bind lo2 = [] then w else bind lo2) (PortNumber (ParamPort ?pp2)) = key"
    using assms(3,5,6) by (simp add: outboundParams_def)
  from resolve_http_create[OF http1 _ assms(8)] k1 assms(7)
  have cr: "push1 = push \<and>
         (m1 = listenerMap \<or>
          (\<exists>l. m1 = listenerMap(key \<mapsto> \<lparr>services = [ParamService ?pp1], servicePort = ParamPort ?pp1,
                           entryBind = (if bind lo1 = [] then w else bind lo1), listener = l,
                           locked = False\<rparr>)))"
    by simp
  with assms(7,9) obtain l where m1: "m1 = listenerMap(key \<mapsto> \<lparr>services = [ParamService ?pp1],
        servicePort = ParamPort ?pp1, entryBind = (if bind lo1 = [] then w else bind lo1),
        listener = l, locked = False\<rparr>)"
    by auto
  with assms(9) have e1: "services e1 = [Some s1]" "servicePort e1 = p1" "\<not> locked e1"
    by (auto simp: outboundParams_def)
  have "buildSidecarOutboundListenerForPortOrUDS ctx lo2 ?pp2 m1 vs2 w push1
          = Inr (m1(key \<mapsto> e1\<lparr>services := services e1 @ [Some s2]\<rparr>), push1)"
    using resolve_http_merge[OF http2, of s2 m1 lo2 w e1 ctx vs2 push1] k2 assms(9) e1 assms(1)
    by (simp add: outboundParams_def)
  then show ?thesis using e1 cr by simp
qed

theorem C5_two_http_services_share_one_listener_witness:
  "IsHTTP (PortProtocol (samplePort 9080 HTTP))
   \<and> bind (sampleOpts [] 9080) = []
   \<and> ''0.0.0.0:9080'' = listenerMapKeyOf (if [] = [] then ''0.0.0.0'' else []) (PortNumber (samplePort 9080 HTTP))
   \<and> (Map.empty :: registry) ''0.0.0.0:9080'' = None
   \<and> buildSidecarOutboundListenerForPortOrUDS sampleContext (sampleOpts [] 9080)
         (outboundParams sampleNode [] (samplePort 9080 HTTP) sampleHTTPService)
         Map.empty [] ''0.0.0.0'' []
       = Inr ([''0.0.0.0:9080'' \<mapsto> sampleHTTPCreated], [])
   \<and> [''0.0.0.0:9080'' \<mapsto> sampleHTTPCreated] ''0.0.0.0:9080'' = Some sampleHTTPCreated
   \<and> services sampleHTTPCreated = [Some sampleHTTPService]
   \<and> buildSidecarOutboundListenerForPortOrUDS sampleContext (sampleOpts [] 9080)
         (outboundParams sampleNode [] (samplePort 9080 HTTP) sampleHTTPService2)
         [''0.0.0.0:9080'' \<mapsto> sampleHTTPCreated] [] ''0.0.0.0'' []
       = Inr ([''0.0.0.0:9080'' \<mapsto> sampleHTTPCreated]
                (''0.0.0.0:9080'' \<mapsto>
                   sampleHTTPCreated\<lparr>services := [Some sampleHTTPService, Some sampleHTTPService2]\<rparr>),
              [])"
proof -
  have h1: "IsHTTP (PortProtocol (samplePort 9080 HTTP))"
    by (simp add: samplePort_def)
  have h2: "PortNumber (samplePort 9080 HTTP) = PortNumber (samplePort 9080 HTTP)"
    by simp
  have h3: "bind (sampleOpts [] 9080) = []"
    by (simp add: sampleOpts_def)
  have h4: "''0.0.0.0:9080'' = listenerMapKeyOf (if [] = [] then ''0.0.0.0'' else []) (PortNumber (samplePort 9080 HTTP))"
    by (simp add: samplePort_def sample_key_9080)
  have h5: "(Map.empty :: registry) ''0.0.0.0:9080'' = None"
    by simp
  have h6: "[''0.0.0.0:9080'' \<mapsto> sampleHTTPCreated] ''0.0.0.0:9080'' = Some sampleHTTPCreated"
    by simp
  note th = C5_two_http_services_share_one_listener[OF h1 h1 h2 h3 h3 h4 h5 sample_http_create h6,
              of sampleHTTPService2 "[]"]
  have a: "services sampleHTTPCreated = [Some sampleHTTPService]"
    using th by (rule conjunct1)
  have b: "buildSidecarOutboundListenerForPortOrUDS sampleContext (sampleOpts [] 9080)
         (outboundParams sampleNode [] (samplePort 9080 HTTP) sampleHTTPService2)
         [''0.0.0.0:9080'' \<mapsto> sampleHTTPCreated] [] ''0.0.0.0'' []
       = Inr ([''0.0.0.0:9080'' \<mapsto> sampleHTTPCreated]
                (''0.0.0.0:9080'' \<mapsto>
                   sampleHTTPCreated\<lparr>services := [Some sampleHTTPService, Some sampleHTTPService2]\<rparr>),
              [])"
    using th by (elim conjE)
  show ?thesis
    by (intro conjI) (rule h1 h3 h4 h5 sample_http_create h6 a b)+
qed

end
